theory Spec2Isabelle
  imports Main
begin

section \<open>Data model\<close>

text \<open>
  A JavaScript \<open>Date\<close> is modelled by its time value (milliseconds since the epoch).
  \<open>toISOString\<close> on the client followed by \<open>new Date(str)\<close> on the server is the
  identity on time values, so a date crosses the wire unchanged.  The \<open>price\<close> is a
  JavaScript number that is only stored and copied, never computed with.
\<close>

type_synonym date = int

datatype TicketStatus = ACTIVE | USED | CANCELLED | INVALID

fun statusName :: "TicketStatus \<Rightarrow> string" where
  "statusName ACTIVE = ''ACTIVE''"
| "statusName USED = ''USED''"
| "statusName CANCELLED = ''CANCELLED''"
| "statusName INVALID = ''INVALID''"

text \<open>Every row of every table is keyed by its \<open>id\<close> (written \<open>id'\<close> here).\<close>

record Entity =
  id' :: string

text \<open>
  The ticket object of the reconciliation request (\<open>syncDataSchema.tickets\<close>) and of
  \<open>Omit<PendingTicket, "synced">\<close>.  An optional field is an \<open>option\<close>.
\<close>

record TicketData = Entity +
  eventName :: string
  ticketType :: string
  price :: int
  qrCode :: string
  holderName :: "string option"
  holderEmail :: "string option"
  createdAt :: date

text \<open>
  A Ticket row of the system of record.  The database schema is not part of the sources;
  the columns are those of \<open>CachedTicket\<close> (minus \<open>lastSync\<close>), which mirrors a server
  ticket, and of section 3 of the specification.
\<close>

record Ticket = TicketData +
  status :: TicketStatus
  updatedAt :: date
  usedAt :: "date option"

text \<open>
  The scan-log object of the reconciliation request, \<open>Omit<PendingScanLog, "synced">\<close>,
  and a ScanLog row of the system of record.
\<close>

record ScanLog = Entity +
  ticketId :: string
  scannedAt :: date
  scannedBy :: "string option"
  location :: "string option"
  deviceInfo :: "string option"

section \<open>The system of record\<close>

text \<open>The two tables behind \<open>tx.ticket\<close> and \<open>tx.scanLog\<close>, each in storage order.\<close>

record Database =
  ticketTable :: "Ticket list"
  scanLogTable :: "ScanLog list"

text \<open>
  What a statement inside a transaction can throw: an \<open>Error\<close> raised by the route
  itself (with its message), or a unique-constraint failure of the persistence layer.
\<close>

datatype TxError = Thrown string | UniqueConstraint

text \<open>\<open>findUnique({ where: { id } })\<close> and \<open>findUnique({ where: { qrCode } })\<close>.\<close>

definition findTicketById :: "string \<Rightarrow> Ticket list \<Rightarrow> Ticket option" where
  "findTicketById i ts = find (\<lambda>t. id' t = i) ts"

definition findTicketByQrCode :: "string \<Rightarrow> Ticket list \<Rightarrow> Ticket option" where
  "findTicketByQrCode q ts = find (\<lambda>t. qrCode t = q) ts"

definition findScanLogById :: "string \<Rightarrow> ScanLog list \<Rightarrow> ScanLog option" where
  "findScanLogById i ls = find (\<lambda>l. id' l = i) ls"

text \<open>
  \<open>ticket.create\<close>: both \<open>id\<close> and \<open>qrCode\<close> are unique keys of a Ticket (each is
  used with \<open>findUnique\<close>), so a row that repeats either one is refused.
\<close>

definition createTicket :: "Ticket \<Rightarrow> Ticket list \<Rightarrow> TxError + Ticket list" where
  "createTicket t ts =
     (if findTicketById (id' t) ts \<noteq> None \<or> findTicketByQrCode (qrCode t) ts \<noteq> None
      then Inl UniqueConstraint
      else Inr (ts @ [t]))"

text \<open>\<open>scanLog.create\<close>: the \<open>id\<close> is the unique key.\<close>

definition createScanLog :: "ScanLog \<Rightarrow> ScanLog list \<Rightarrow> TxError + ScanLog list" where
  "createScanLog l ls =
     (if findScanLogById (id' l) ls \<noteq> None then Inl UniqueConstraint else Inr (ls @ [l]))"

text \<open>
  \<open>ticket.update({ where: { id }, data: { status: "USED", usedAt } })\<close>: exactly the
  two columns named in \<open>data\<close> are written.
\<close>

definition markUsed :: "string \<Rightarrow> date \<Rightarrow> Ticket list \<Rightarrow> Ticket list" where
  "markUsed i at ts =
     map (\<lambda>t. if id' t = i then t\<lparr>status := USED, usedAt := Some at\<rparr> else t) ts"

subsection \<open>Authoritative scan: the transaction of \<open>POST /api/scan\<close>\<close>

text \<open>
  The arguments are the fields of the validated request, then what the environment
  supplies: the identifier returned by \<open>uuidv4()\<close> and the server clock.  The result
  pairs what the transaction returns or throws with the database afterwards; a throw
  rolls the transaction back, so the database is then the one before the call.
\<close>

definition scanTransaction ::
  "string \<Rightarrow> string option \<Rightarrow> string option \<Rightarrow> string option \<Rightarrow> string \<Rightarrow> date \<Rightarrow> Database
     \<Rightarrow> (TxError + Ticket \<times> ScanLog) \<times> Database" where
  "scanTransaction qr who loc dev uuid now db =
     (case findTicketByQrCode qr (ticketTable db) of
        None \<Rightarrow> (Inl (Thrown ''TICKET_NOT_FOUND''), db)
      | Some ticket \<Rightarrow>
          if status ticket \<noteq> ACTIVE
          then (Inl (Thrown (''TICKET_'' @ statusName (status ticket))), db)
          else
            let updatedTicket = ticket\<lparr>status := USED, usedAt := Some now\<rparr>;
                scanLog = \<lparr>id' = uuid, ticketId = id' ticket, scannedAt = now,
                           scannedBy = who, location = loc, deviceInfo = dev\<rparr>
            in (case createScanLog scanLog (scanLogTable db) of
                  Inl e \<Rightarrow> (Inl e, db)
                | Inr ls \<Rightarrow>
                    (Inr (updatedTicket, scanLog),
                     \<lparr>ticketTable = markUsed (id' ticket) now (ticketTable db), scanLogTable = ls\<rparr>)))"

text \<open>
  The JSON answers of the route: on success status 200 with the ticket and the scan log,
  otherwise an HTTP status, an \<open>error\<close> text and, for the four domain failures, a
  \<open>message\<close>.
\<close>

datatype ScanResponse =
    ScanSuccess Ticket ScanLog
  | ScanFailure nat string "string option"

definition scanErrorResponse :: "TxError \<Rightarrow> ScanResponse" where
  "scanErrorResponse e =
     (case e of
        Thrown m \<Rightarrow>
          if m = ''TICKET_NOT_FOUND''
          then ScanFailure 404 ''Ticket not found''
                 (Some ''The QR code does not match any ticket in the system'')
          else if m = ''TICKET_USED''
          then ScanFailure 409 ''Ticket already used''
                 (Some ''This ticket has already been scanned and used'')
          else if m = ''TICKET_CANCELLED''
          then ScanFailure 409 ''Ticket cancelled''
                 (Some ''This ticket has been cancelled and cannot be used'')
          else if m = ''TICKET_INVALID''
          then ScanFailure 409 ''Ticket invalid''
                 (Some ''This ticket is invalid and cannot be used'')
          else ScanFailure 500 ''Internal server error'' None
      | UniqueConstraint \<Rightarrow> ScanFailure 500 ''Internal server error'' None)"

definition scanPOST ::
  "string \<Rightarrow> string option \<Rightarrow> string option \<Rightarrow> string option \<Rightarrow> string \<Rightarrow> date \<Rightarrow> Database
     \<Rightarrow> ScanResponse \<times> Database" where
  "scanPOST qr who loc dev uuid now db =
     (case scanTransaction qr who loc dev uuid now db of
        (Inr (t, l), db') \<Rightarrow> (ScanSuccess t l, db')
      | (Inl e, db') \<Rightarrow> (scanErrorResponse e, db'))"

subsection \<open>Reconciliation: the transaction of \<open>POST /api/sync\<close>\<close>

text \<open>The validated request body \<open>{ tickets, scanLogs }\<close>.\<close>

record SyncData =
  tickets :: "TicketData list"
  scanLogs :: "ScanLog list"

text \<open>\<open>syncResult\<close>: the ids accepted per kind, and one \<open>{ type, id, error }\<close> per failed item.\<close>

record Synced =
  tickets :: "string list"
  scanLogs :: "string list"

datatype SyncItemError = SyncItemError string string string

record SyncReport =
  synced :: Synced
  errors :: "SyncItemError list"

definition emptyReport :: SyncReport where
  "emptyReport = \<lparr>SyncReport.synced = \<lparr>Synced.tickets = [], Synced.scanLogs = []\<rparr>, SyncReport.errors = []\<rparr>"

definition pushSyncedTicket :: "string \<Rightarrow> SyncReport \<Rightarrow> SyncReport" where
  "pushSyncedTicket i r =
     r\<lparr>synced := (synced r)\<lparr>Synced.tickets := Synced.tickets (synced r) @ [i]\<rparr>\<rparr>"

definition pushSyncedScanLog :: "string \<Rightarrow> SyncReport \<Rightarrow> SyncReport" where
  "pushSyncedScanLog i r =
     r\<lparr>synced := (synced r)\<lparr>Synced.scanLogs := Synced.scanLogs (synced r) @ [i]\<rparr>\<rparr>"

definition pushError :: "string \<Rightarrow> string \<Rightarrow> string \<Rightarrow> SyncReport \<Rightarrow> SyncReport" where
  "pushError ty i msg r = r\<lparr>errors := errors r @ [SyncItemError ty i msg]\<rparr>"

text \<open>
  \<open>error.message\<close> of what a statement threw.  The text of the persistence layer's
  unique-constraint error is not in the sources; a fixed text stands for it.
\<close>

definition errorMessage :: "TxError \<Rightarrow> string" where
  "errorMessage e = (case e of Thrown m \<Rightarrow> m | UniqueConstraint \<Rightarrow> ''Unique constraint failed'')"

text \<open>
  The row that \<open>ticket.create({ data: { ...ticketData, holderEmail: ticketData.holderEmail || null } })\<close>
  inserts.  Modelled from the spec: the column defaults of the schema, which is not among
  the sources; a new ticket is \<open>ACTIVE\<close> with no \<open>usedAt\<close> (section 3), and
  \<open>updatedAt\<close> is server bookkeeping, taken from the server clock.
\<close>

definition newTicket :: "date \<Rightarrow> TicketData \<Rightarrow> Ticket" where
  "newTicket now ticketData =
     \<lparr>id' = id' ticketData, eventName = eventName ticketData,
      ticketType = ticketType ticketData, price = price ticketData,
      qrCode = qrCode ticketData, holderName = holderName ticketData,
      holderEmail = (case holderEmail ticketData of
                       None \<Rightarrow> None
                     | Some e \<Rightarrow> if e = [] then None else Some e),
      createdAt = createdAt ticketData,
      status = ACTIVE, updatedAt = now, usedAt = None\<rparr>"

text \<open>
  One iteration of the first loop.  The \<open>try\<close>/\<open>catch\<close> around the body turns a throw
  into an entry of \<open>errors\<close> and goes on with the next item.
\<close>

definition syncTicket :: "date \<Rightarrow> TicketData \<Rightarrow> Database \<times> SyncReport \<Rightarrow> Database \<times> SyncReport" where
  "syncTicket now ticketData acc =
     (case acc of (db, syncResult) \<Rightarrow>
        (case findTicketById (id' ticketData) (ticketTable db) of
           Some existingTicket \<Rightarrow> (db, pushSyncedTicket (id' ticketData) syncResult)
         | None \<Rightarrow>
             (case createTicket (newTicket now ticketData) (ticketTable db) of
                Inl e \<Rightarrow> (db, pushError ''ticket'' (id' ticketData) (errorMessage e) syncResult)
              | Inr ts \<Rightarrow>
                  (db\<lparr>ticketTable := ts\<rparr>, pushSyncedTicket (id' ticketData) syncResult))))"

text \<open>One iteration of the second loop.\<close>

definition syncScanLog :: "ScanLog \<Rightarrow> Database \<times> SyncReport \<Rightarrow> Database \<times> SyncReport" where
  "syncScanLog scanLogData acc =
     (case acc of (db, syncResult) \<Rightarrow>
        (case findScanLogById (id' scanLogData) (scanLogTable db) of
           Some existingScanLog \<Rightarrow> (db, pushSyncedScanLog (id' scanLogData) syncResult)
         | None \<Rightarrow>
             (case findTicketById (ticketId scanLogData) (ticketTable db) of
                Some ticket \<Rightarrow>
                  (case createScanLog scanLogData (scanLogTable db) of
                     Inl e \<Rightarrow>
                       (db, pushError ''scanLog'' (id' scanLogData) (errorMessage e) syncResult)
                   | Inr ls \<Rightarrow>
                       (let db1 = db\<lparr>scanLogTable := ls\<rparr>;
                            db2 = (if status ticket = ACTIVE
                                   then db1\<lparr>ticketTable :=
                                          markUsed (ticketId scanLogData) (scannedAt scanLogData)
                                            (ticketTable db1)\<rparr>
                                   else db1)
                        in (db2, pushSyncedScanLog (id' scanLogData) syncResult)))
              | None \<Rightarrow>
                  (db, pushError ''scanLog'' (id' scanLogData)
                         ''Associated ticket not found'' syncResult))))"

text \<open>The whole transaction: all tickets in order, then all scan logs in order.\<close>

definition syncTransaction :: "date \<Rightarrow> SyncData \<Rightarrow> Database \<Rightarrow> SyncReport \<times> Database" where
  "syncTransaction now validatedData db =
     (case fold syncScanLog (SyncData.scanLogs validatedData)
             (fold (syncTicket now) (SyncData.tickets validatedData) (db, emptyReport)) of
        (db', syncResult) \<Rightarrow> (syncResult, db'))"

text \<open>
  The answer as the client reads it: \<open>response.ok\<close>, \<open>response.statusText\<close> and the
  JSON fields \<open>success\<close>, \<open>synced\<close>, \<open>errors\<close>, \<open>error\<close>, each absent or present.
  The \<open>summary\<close> holds the five counters of the route.
\<close>

datatype SyncSummary = SyncSummary nat nat nat nat nat

record SyncResponse =
  ok :: bool
  statusText :: string
  success :: bool
  synced :: "Synced option"
  errors :: "SyncItemError list option"
  error :: "string option"
  summary :: "SyncSummary option"

definition syncPOST :: "date \<Rightarrow> SyncData \<Rightarrow> Database \<Rightarrow> SyncResponse \<times> Database" where
  "syncPOST now validatedData db =
     (case syncTransaction now validatedData db of
        (syncResult, db') \<Rightarrow>
          (\<lparr>ok = True, statusText = ''OK'', success = True,
            synced = Some (SyncReport.synced syncResult),
            errors = Some (SyncReport.errors syncResult), error = None,
            summary = Some (SyncSummary
              (length (SyncData.tickets validatedData))
              (length (SyncData.scanLogs validatedData))
              (length (Synced.tickets (SyncReport.synced syncResult)))
              (length (Synced.scanLogs (SyncReport.synced syncResult)))
              (length (SyncReport.errors syncResult)))\<rparr>,
           db'))"

section \<open>The Local Durable Store (\<open>indexedDBOperations\<close>)\<close>

text \<open>\<open>synced\<close> is a number: 0 stands for false, 1 for true.\<close>

record PendingTicket = TicketData +
  synced :: nat

record PendingScanLog = ScanLog +
  synced :: nat

record CachedTicket = Ticket +
  lastSync :: date

text \<open>The three tables, each keyed by \<open>id\<close> and listed in storage order.\<close>

record LocalStore =
  pendingTickets :: "PendingTicket list"
  pendingScanLogs :: "PendingScanLog list"
  cachedTickets :: "CachedTicket list"

definition emptyStore :: LocalStore where
  "emptyStore = \<lparr>pendingTickets = [], pendingScanLogs = [], cachedTickets = []\<rparr>"

text \<open>\<open>Table.add\<close> rejects an object whose primary key is already in the table.\<close>

datatype StoreError = ConstraintError

definition addPendingTicket :: "TicketData \<Rightarrow> LocalStore \<Rightarrow> StoreError + LocalStore" where
  "addPendingTicket ticket st =
     (let pendingTicket =
            \<lparr>id' = id' ticket, eventName = eventName ticket, ticketType = ticketType ticket,
             price = price ticket, qrCode = qrCode ticket, holderName = holderName ticket,
             holderEmail = holderEmail ticket, createdAt = createdAt ticket,
             PendingTicket.synced = 0\<rparr>
      in if find (\<lambda>p. id' p = id' ticket) (pendingTickets st) \<noteq> None
         then Inl ConstraintError
         else Inr (st\<lparr>pendingTickets := pendingTickets st @ [pendingTicket]\<rparr>))"

definition getPendingTickets :: "LocalStore \<Rightarrow> PendingTicket list" where
  "getPendingTickets st = filter (\<lambda>p. PendingTicket.synced p = 0) (pendingTickets st)"

definition markTicketAsSynced :: "string \<Rightarrow> LocalStore \<Rightarrow> LocalStore" where
  "markTicketAsSynced i st =
     st\<lparr>pendingTickets :=
          map (\<lambda>p. if id' p = i then p\<lparr>PendingTicket.synced := 1\<rparr> else p) (pendingTickets st)\<rparr>"

definition clearSyncedTickets :: "LocalStore \<Rightarrow> LocalStore" where
  "clearSyncedTickets st =
     st\<lparr>pendingTickets := filter (\<lambda>p. PendingTicket.synced p \<noteq> 1) (pendingTickets st)\<rparr>"

definition addPendingScanLog :: "ScanLog \<Rightarrow> LocalStore \<Rightarrow> StoreError + LocalStore" where
  "addPendingScanLog scanLog st =
     (let pendingScanLog =
            \<lparr>id' = id' scanLog, ticketId = ticketId scanLog, scannedAt = scannedAt scanLog,
             scannedBy = scannedBy scanLog, location = location scanLog,
             deviceInfo = deviceInfo scanLog, PendingScanLog.synced = 0\<rparr>
      in if find (\<lambda>p. id' p = id' scanLog) (pendingScanLogs st) \<noteq> None
         then Inl ConstraintError
         else Inr (st\<lparr>pendingScanLogs := pendingScanLogs st @ [pendingScanLog]\<rparr>))"

definition getPendingScanLogs :: "LocalStore \<Rightarrow> PendingScanLog list" where
  "getPendingScanLogs st = filter (\<lambda>p. PendingScanLog.synced p = 0) (pendingScanLogs st)"

definition markScanLogAsSynced :: "string \<Rightarrow> LocalStore \<Rightarrow> LocalStore" where
  "markScanLogAsSynced i st =
     st\<lparr>pendingScanLogs :=
          map (\<lambda>p. if id' p = i then p\<lparr>PendingScanLog.synced := 1\<rparr> else p)
            (pendingScanLogs st)\<rparr>"

definition clearSyncedScanLogs :: "LocalStore \<Rightarrow> LocalStore" where
  "clearSyncedScanLogs st =
     st\<lparr>pendingScanLogs := filter (\<lambda>p. PendingScanLog.synced p \<noteq> 1) (pendingScanLogs st)\<rparr>"

text \<open>\<open>Table.put\<close>: replace the object with the same primary key, or add a new one.\<close>

definition putCached :: "CachedTicket \<Rightarrow> CachedTicket list \<Rightarrow> CachedTicket list" where
  "putCached c cs =
     (if find (\<lambda>x. id' x = id' c) cs = None then cs @ [c]
      else map (\<lambda>x. if id' x = id' c then c else x) cs)"

definition withLastSync :: "date \<Rightarrow> Ticket \<Rightarrow> CachedTicket" where
  "withLastSync now ticket =
     \<lparr>id' = id' ticket, eventName = eventName ticket, ticketType = ticketType ticket,
      price = price ticket, qrCode = qrCode ticket, holderName = holderName ticket,
      holderEmail = holderEmail ticket, createdAt = createdAt ticket,
      status = status ticket, updatedAt = updatedAt ticket, usedAt = usedAt ticket,
      lastSync = now\<rparr>"

text \<open>The clock read by \<open>new Date()\<close> inside an operation is its \<open>now\<close> argument.\<close>

definition cacheTicket :: "date \<Rightarrow> Ticket \<Rightarrow> LocalStore \<Rightarrow> LocalStore" where
  "cacheTicket now ticket st =
     st\<lparr>cachedTickets := putCached (withLastSync now ticket) (cachedTickets st)\<rparr>"

definition getCachedTicket :: "string \<Rightarrow> LocalStore \<Rightarrow> CachedTicket option" where
  "getCachedTicket i st = find (\<lambda>c. id' c = i) (cachedTickets st)"

definition getCachedTicketByQR :: "string \<Rightarrow> LocalStore \<Rightarrow> CachedTicket option" where
  "getCachedTicketByQR q st = find (\<lambda>c. qrCode c = q) (cachedTickets st)"

definition updateCachedTicketStatus ::
  "date \<Rightarrow> string \<Rightarrow> TicketStatus \<Rightarrow> date option \<Rightarrow> LocalStore \<Rightarrow> LocalStore" where
  "updateCachedTicketStatus now i newStatus newUsedAt st =
     st\<lparr>cachedTickets :=
          map (\<lambda>c. if id' c = i
                    then (case newUsedAt of
                            None \<Rightarrow> c\<lparr>status := newStatus, lastSync := now\<rparr>
                          | Some u \<Rightarrow> c\<lparr>status := newStatus, lastSync := now, usedAt := Some u\<rparr>)
                    else c)
            (cachedTickets st)\<rparr>"

definition clearOldCache :: "date \<Rightarrow> LocalStore \<Rightarrow> LocalStore" where
  "clearOldCache olderThan st =
     st\<lparr>cachedTickets := filter (\<lambda>c. \<not> lastSync c < olderThan) (cachedTickets st)\<rparr>"

definition cacheMultipleTickets :: "date \<Rightarrow> Ticket list \<Rightarrow> LocalStore \<Rightarrow> LocalStore" where
  "cacheMultipleTickets now ts st =
     st\<lparr>cachedTickets := fold putCached (map (withLastSync now) ts) (cachedTickets st)\<rparr>"

record PendingSyncCount =
  tickets :: nat
  scanLogs :: nat
  total :: nat

definition getPendingSyncCount :: "LocalStore \<Rightarrow> PendingSyncCount" where
  "getPendingSyncCount st =
     (let ticketCount = length (filter (\<lambda>p. PendingTicket.synced p = 0) (pendingTickets st));
          scanLogCount = length (filter (\<lambda>p. PendingScanLog.synced p = 0) (pendingScanLogs st))
      in \<lparr>PendingSyncCount.tickets = ticketCount, PendingSyncCount.scanLogs = scanLogCount,
          total = ticketCount + scanLogCount\<rparr>)"

definition clearAllData :: "LocalStore \<Rightarrow> LocalStore" where
  "clearAllData st = \<lparr>pendingTickets = [], pendingScanLogs = [], cachedTickets = []\<rparr>"

text \<open>
  A sequence of store operations.  An \<open>add\<close> that is rejected leaves the store as it was.
\<close>

datatype StoreOp =
    AddPendingTicket TicketData
  | MarkTicketAsSynced string
  | ClearSyncedTickets
  | AddPendingScanLog ScanLog
  | MarkScanLogAsSynced string
  | ClearSyncedScanLogs
  | CacheTicket date Ticket
  | UpdateCachedTicketStatus date string TicketStatus "date option"
  | ClearOldCache date
  | CacheMultipleTickets date "Ticket list"
  | ClearAllData

fun applyOp :: "StoreOp \<Rightarrow> LocalStore \<Rightarrow> LocalStore" where
  "applyOp (AddPendingTicket t) st =
     (case addPendingTicket t st of Inl e \<Rightarrow> st | Inr st' \<Rightarrow> st')"
| "applyOp (MarkTicketAsSynced i) st = markTicketAsSynced i st"
| "applyOp ClearSyncedTickets st = clearSyncedTickets st"
| "applyOp (AddPendingScanLog l) st =
     (case addPendingScanLog l st of Inl e \<Rightarrow> st | Inr st' \<Rightarrow> st')"
| "applyOp (MarkScanLogAsSynced i) st = markScanLogAsSynced i st"
| "applyOp ClearSyncedScanLogs st = clearSyncedScanLogs st"
| "applyOp (CacheTicket now t) st = cacheTicket now t st"
| "applyOp (UpdateCachedTicketStatus now i s u) st = updateCachedTicketStatus now i s u st"
| "applyOp (ClearOldCache d) st = clearOldCache d st"
| "applyOp (CacheMultipleTickets now ts) st = cacheMultipleTickets now ts st"
| "applyOp ClearAllData st = clearAllData st"

definition runOps :: "StoreOp list \<Rightarrow> LocalStore \<Rightarrow> LocalStore" where
  "runOps ops st = fold applyOp ops st"

section \<open>The client\<close>

text \<open>What \<open>await fetch(...)\<close> followed by \<open>response.json()\<close> gives: a throw or an answer.\<close>

datatype 'a Fetch = NetworkError | Response 'a

subsection \<open>\<open>performManualSync\<close>\<close>

record SyncResult =
  success :: bool
  ticketsSynced :: nat
  scanLogsSynced :: nat
  errors :: "SyncItemError list"

text \<open>
  The request objects: the pending entry with \<open>holderEmail || ""\<close>; the \<open>synced\<close>
  key is not part of the request schema.
\<close>

definition toSyncTicket :: "PendingTicket \<Rightarrow> TicketData" where
  "toSyncTicket ticket =
     \<lparr>id' = id' ticket, eventName = eventName ticket, ticketType = ticketType ticket,
      price = price ticket, qrCode = qrCode ticket, holderName = holderName ticket,
      holderEmail = (case holderEmail ticket of None \<Rightarrow> Some [] | Some e \<Rightarrow> Some e),
      createdAt = createdAt ticket\<rparr>"

definition toSyncScanLog :: "PendingScanLog \<Rightarrow> ScanLog" where
  "toSyncScanLog log =
     \<lparr>id' = id' log, ticketId = ticketId log, scannedAt = scannedAt log,
      scannedBy = scannedBy log, location = location log, deviceInfo = deviceInfo log\<rparr>"

text \<open>
  The first argument is the network: what a \<open>POST /api/sync\<close> with a given body
  answers.  The result is what the function returns (\<open>Inr\<close>) or the message of the
  error it rethrows (\<open>Inl\<close>), the store afterwards, and the list of request bodies that
  were submitted.
\<close>

definition performManualSync ::
  "(SyncData \<Rightarrow> SyncResponse Fetch) \<Rightarrow> LocalStore
     \<Rightarrow> (string + SyncResult) \<times> LocalStore \<times> SyncData list" where
  "performManualSync fetch st =
     (let pendingTickets = getPendingTickets st;
          pendingScanLogs = getPendingScanLogs st
      in if length pendingTickets = 0 \<and> length pendingScanLogs = 0
         then (Inr \<lparr>SyncResult.success = True, ticketsSynced = 0, scanLogsSynced = 0,
                    SyncResult.errors = []\<rparr>, st, [])
         else
           let syncData = \<lparr>SyncData.tickets = map toSyncTicket pendingTickets,
                           SyncData.scanLogs = map toSyncScanLog pendingScanLogs\<rparr>
           in (case fetch syncData of
                 NetworkError \<Rightarrow> (Inl ''Failed to fetch'', st, [syncData])
               | Response response \<Rightarrow>
                   if \<not> ok response
                   then (Inl (''Sync failed: '' @ statusText response), st, [syncData])
                   else if SyncResponse.success response
                   then (case SyncResponse.synced response of
                           None \<Rightarrow> (Inl ''TypeError'', st, [syncData])
                         | Some s \<Rightarrow>
                             let st1 = (if length (Synced.tickets s) > 0
                                        then clearSyncedTickets st else st);
                                 st2 = (if length (Synced.scanLogs s) > 0
                                        then clearSyncedScanLogs st1 else st1)
                             in (Inr \<lparr>SyncResult.success = True,
                                      ticketsSynced = length (Synced.tickets s),
                                      scanLogsSynced = length (Synced.scanLogs s),
                                      SyncResult.errors =
                                        (case SyncResponse.errors response of
                                           None \<Rightarrow> [] | Some es \<Rightarrow> es)\<rparr>,
                                 st2, [syncData]))
                   else (Inl (case SyncResponse.error response of
                                None \<Rightarrow> ''Sync failed''
                              | Some e \<Rightarrow> if e = [] then ''Sync failed'' else e),
                         st, [syncData])))"

text \<open>The network when the reconciliation endpoint runs on database \<open>db\<close> at time \<open>now\<close>.\<close>

definition syncEndpoint :: "date \<Rightarrow> Database \<Rightarrow> SyncData \<Rightarrow> SyncResponse Fetch" where
  "syncEndpoint now db body = Response (fst (syncPOST now body db))"

subsection \<open>The scan page\<close>

text \<open>
  \<open>ScanResult.ticket\<close> has type \<open>unknown\<close>: it holds the server's ticket after an
  online scan and the cached ticket after an offline one.
\<close>

datatype TicketView = OnlineTicket Ticket | OfflineTicket CachedTicket

record ScanResult =
  success :: bool
  ticket :: "TicketView option"
  scanLog :: "ScanLog option"
  error :: "string option"
  message :: "string option"
  isOffline :: "bool option"

datatype Toast = ToastError string | ToastSuccess string

text \<open>
  The two state values that the guards of \<open>processTicketScan\<close> read.  They occur twice:
  in the state of the page, where the setters write them, and in the closure of a render,
  where they are constants.
\<close>

record GuardState =
  isProcessing :: bool
  lastScannedCode :: string

text \<open>The state of the page as the setters leave it, and the toasts shown so far.\<close>

record ScanPage = GuardState +
  scanResult :: "ScanResult option"
  toasts :: "Toast list"

definition initialPage :: ScanPage where
  "initialPage = \<lparr>isProcessing = False, lastScannedCode = [], scanResult = None, toasts = []\<rparr>"

text \<open>
  \<open>processTicketScan\<close> is created anew by every render of the page and closes over the
  values that render holds: \<open>isProcessing\<close>, \<open>lastScannedCode\<close> and \<open>isOnline\<close>.  A
  call reads these captured values, whatever the state of the page has become since.
\<close>

record Closure = GuardState +
  isOnline :: bool

text \<open>The closure made by a render of the page in a given state and connectivity.\<close>

definition renderClosure :: "bool \<Rightarrow> ScanPage \<Rightarrow> Closure" where
  "renderClosure online page =
     \<lparr>isProcessing = isProcessing page, lastScannedCode = lastScannedCode page,
      isOnline = online\<rparr>"

text \<open>
  What one call reads from its surroundings when it runs: what the request to
  \<open>/api/scan\<close> gives if it is made, the identifier from \<open>uuidv4()\<close>, the clock at the
  scan and at the cache update, and \<open>navigator.userAgent\<close>.
\<close>

record ScanEnv =
  fetched :: "ScanResponse Fetch"
  scanLogId :: string
  scanTime :: date
  cacheTime :: date
  userAgent :: string

fun statusLower :: "TicketStatus \<Rightarrow> string" where
  "statusLower ACTIVE = ''active''"
| "statusLower USED = ''used''"
| "statusLower CANCELLED = ''cancelled''"
| "statusLower INVALID = ''invalid''"

definition performOfflineScan ::
  "ScanEnv \<Rightarrow> string \<Rightarrow> ScanPage \<times> LocalStore \<Rightarrow> ScanPage \<times> LocalStore" where
  "performOfflineScan env qr ps =
     (case ps of (page, st) \<Rightarrow>
        (case getCachedTicketByQR qr st of
           None \<Rightarrow>
             (page\<lparr>scanResult := Some
                     \<lparr>ScanResult.success = False, ticket = None, scanLog = None,
                      ScanResult.error = Some ''TICKET_NOT_FOUND'',
                      message = Some
                        ''Ticket not found in offline cache. Connect to internet to validate.'',
                      isOffline = Some True\<rparr>,
                   toasts := toasts page @ [ToastError ''Ticket not found offline'']\<rparr>,
              st)
         | Some cachedTicket \<Rightarrow>
             if status cachedTicket \<noteq> ACTIVE
             then
               (page\<lparr>scanResult := Some
                       \<lparr>ScanResult.success = False,
                        ticket = Some (OfflineTicket cachedTicket), scanLog = None,
                        ScanResult.error = Some (''TICKET_'' @ statusName (status cachedTicket)),
                        message = Some (''This ticket is '' @ statusLower (status cachedTicket)
                                         @ '' and cannot be used.''),
                        isOffline = Some True\<rparr>,
                     toasts := toasts page
                       @ [ToastError (''Ticket is '' @ statusLower (status cachedTicket))]\<rparr>,
                st)
             else
               let log = \<lparr>id' = scanLogId env, ticketId = id' cachedTicket, scannedAt = scanTime env,
                          scannedBy = Some ''Scanner App (Offline)'',
                          location = Some ''Event Entrance'',
                          deviceInfo = Some (userAgent env)\<rparr>
               in (case addPendingScanLog log st of
                     Inl e \<Rightarrow>
                       (page\<lparr>scanResult := Some
                               \<lparr>ScanResult.success = False, ticket = None, scanLog = None,
                                ScanResult.error = Some ''OFFLINE_ERROR'',
                                message = Some
                                  ''Failed to process ticket offline. Please try again.'',
                                isOffline = Some True\<rparr>,
                             toasts := toasts page @ [ToastError ''Offline scan failed'']\<rparr>,
                        st)
                   | Inr st1 \<Rightarrow>
                       (page\<lparr>scanResult := Some
                               \<lparr>ScanResult.success = True,
                                ticket = Some (OfflineTicket
                                  (cachedTicket\<lparr>status := USED, usedAt := Some (scanTime env)\<rparr>)),
                                scanLog = Some log, ScanResult.error = None,
                                message = Some
                                  ''Ticket scanned offline successfully! Will sync when online.'',
                                isOffline = Some True\<rparr>,
                             toasts := toasts page
                               @ [ToastSuccess
                                    ''Ticket validated offline - will sync when online'']\<rparr>,
                        updateCachedTicketStatus (cacheTime env) (id' cachedTicket) USED
                          (Some (scanTime env)) st1))))"

text \<open>The \<open>if (result.success) ... else ...\<close> after the online request.\<close>

definition showOnlineResult :: "ScanResponse \<Rightarrow> ScanPage \<Rightarrow> ScanPage" where
  "showOnlineResult result page =
     (case result of
        ScanSuccess t l \<Rightarrow>
          page\<lparr>scanResult := Some
                 \<lparr>ScanResult.success = True, ticket = Some (OnlineTicket t), scanLog = Some l,
                  ScanResult.error = None,
                  message = Some ''Ticket scanned successfully online!'', isOffline = None\<rparr>,
               toasts := toasts page @ [ToastSuccess ''Ticket validated successfully!'']\<rparr>
      | ScanFailure code err msg \<Rightarrow>
          page\<lparr>scanResult := Some
                 \<lparr>ScanResult.success = False, ticket = None, scanLog = None,
                  ScanResult.error = Some err, message = msg, isOffline = None\<rparr>,
               toasts := toasts page
                 @ [ToastError (case msg of None \<Rightarrow> ''Scan failed''
                                | Some m \<Rightarrow> if m = [] then ''Scan failed'' else m)]\<rparr>)"

text \<open>
  \<open>processTicketScan\<close>: the two guards, which read the closure \<open>seen\<close>; then the
  \<open>try\<close> body (\<open>Inl\<close> when it throws), the \<open>catch\<close> block and the \<open>finally\<close> block,
  whose setters write the state of the page.
\<close>

definition processTicketScan ::
  "Closure \<Rightarrow> ScanEnv \<Rightarrow> string \<Rightarrow> ScanPage \<times> LocalStore \<Rightarrow> ScanPage \<times> LocalStore" where
  "processTicketScan seen env qr ps =
     (case ps of (page, st) \<Rightarrow>
        if isProcessing seen then (page, st)
        else if lastScannedCode seen = qr
        then (page\<lparr>toasts := toasts page
                @ [ToastError
                     ''This ticket was just scanned. Please scan a different ticket.'']\<rparr>, st)
        else
          let page1 = page\<lparr>isProcessing := True, lastScannedCode := qr\<rparr>;
              body = (if isOnline seen
                      then (case fetched env of
                              NetworkError \<Rightarrow> Inl ()
                            | Response result \<Rightarrow> Inr (showOnlineResult result page1, st))
                      else Inr (performOfflineScan env qr (page1, st)));
              caught = (case body of
                          Inr shown \<Rightarrow> shown
                        | Inl e \<Rightarrow>
                            if \<not> isOnline seen
                            then performOfflineScan env qr (page1, st)
                            else (page1\<lparr>scanResult := Some
                                    \<lparr>ScanResult.success = False, ticket = None, scanLog = None,
                                     ScanResult.error = Some ''Network error'',
                                     message = Some
                                       ''Failed to validate ticket. Please try again.'',
                                     isOffline = None\<rparr>,
                                   toasts := toasts page1
                                     @ [ToastError ''Network error during scan'']\<rparr>, st))
          in (case caught of (page2, st2) \<Rightarrow> (page2\<lparr>isProcessing := False\<rparr>, st2)))"


section \<open>Sample states\<close>

definition T1 :: Ticket where
  "T1 = \<lparr>id' = ''T1'', eventName = ''Gala'', ticketType = ''VIP'', price = 50, qrCode = ''T1'',
         holderName = None, holderEmail = None, createdAt = 1000,
         status = ACTIVE, updatedAt = 1000, usedAt = None\<rparr>"

definition L1 :: ScanLog where
  "L1 = \<lparr>id' = ''L1'', ticketId = ''T1'', scannedAt = 2000, scannedBy = None,
         location = None, deviceInfo = None\<rparr>"

definition P1 :: PendingTicket where
  "P1 = \<lparr>id' = ''T1'', eventName = ''Gala'', ticketType = ''VIP'', price = 50, qrCode = ''T1'',
         holderName = None, holderEmail = None, createdAt = 1000, PendingTicket.synced = 0\<rparr>"

definition emptyDatabase :: Database where
  "emptyDatabase = \<lparr>ticketTable = [], scanLogTable = []\<rparr>"

definition CT1 :: CachedTicket where
  "CT1 = \<lparr>id' = ''T1'', eventName = ''Gala'', ticketType = ''VIP'', price = 50, qrCode = ''T1'',
          holderName = None, holderEmail = None, createdAt = 1000,
          status = ACTIVE, updatedAt = 1000, usedAt = None, lastSync = 1500\<rparr>"

text \<open>
  Surroundings of a call.  In \<open>offlineEnv\<close> and \<open>unreachableEnv\<close> the request to
  \<open>/api/scan\<close> fails in transit and \<open>fetch\<close> rejects.  In \<open>workerEnv\<close> the service
  worker of the repository stands between page and network: when the network fails it
  answers the request itself, with status 503 and the body
  \<open>{ error: "Offline - request will be synced when online" }\<close>.
\<close>

definition offlineEnv :: ScanEnv where
  "offlineEnv = \<lparr>fetched = NetworkError, scanLogId = ''L9'',
                 scanTime = 7000, cacheTime = 7001, userAgent = ''UA''\<rparr>"

definition unreachableEnv :: ScanEnv where
  "unreachableEnv = \<lparr>fetched = NetworkError, scanLogId = ''L9'',
                     scanTime = 7000, cacheTime = 7001, userAgent = ''UA''\<rparr>"

definition workerEnv :: ScanEnv where
  "workerEnv = \<lparr>fetched = Response (ScanFailure 503
                   ''Offline - request will be synced when online'' None),
                scanLogId = ''L9'', scanTime = 7000, cacheTime = 7001, userAgent = ''UA''\<rparr>"

text \<open>The closures of the first render of the page, online and offline.\<close>

definition onlineHandler :: Closure where
  "onlineHandler = renderClosure True initialPage"

definition offlineHandler :: Closure where
  "offlineHandler = renderClosure False initialPage"


text \<open>A local store whose cache holds the \<open>ACTIVE\<close> ticket \<open>T1\<close>.\<close>

definition cachedStore :: LocalStore where
  "cachedStore = \<lparr>pendingTickets = [], pendingScanLogs = [], cachedTickets = [CT1]\<rparr>"

section \<open>Notions used in the statements and proofs\<close>

text \<open>The keys present in the system of record, and the ids a report counts as synced.\<close>

definition ticketIds :: "Database \<Rightarrow> string set" where
  "ticketIds db = id' ` set (ticketTable db)"

definition ticketQrCodes :: "Database \<Rightarrow> string set" where
  "ticketQrCodes db = qrCode ` set (ticketTable db)"

definition scanLogIds :: "Database \<Rightarrow> string set" where
  "scanLogIds db = id' ` set (scanLogTable db)"

definition syncedTicketIds :: "SyncReport \<Rightarrow> string set" where
  "syncedTicketIds r = set (Synced.tickets (SyncReport.synced r))"

definition syncedScanLogIds :: "SyncReport \<Rightarrow> string set" where
  "syncedScanLogIds r = set (Synced.scanLogs (SyncReport.synced r))"

text \<open>
  An item is settled in a database when processing it again changes no table: a ticket
  item whose id or qrCode is taken, a scan-log item whose id is taken or whose ticket is
  missing.
\<close>

definition ticketSettled :: "TicketData \<Rightarrow> Database \<Rightarrow> bool" where
  "ticketSettled t db = (id' t \<in> ticketIds db \<or> qrCode t \<in> ticketQrCodes db)"

definition scanLogSettled :: "ScanLog \<Rightarrow> Database \<Rightarrow> bool" where
  "scanLogSettled l db = (id' l \<in> scanLogIds db \<or> ticketId l \<notin> ticketIds db)"

text \<open>Fixed scan results and the toast of the duplicate guard, as the page writes them.\<close>

definition notFoundOffline :: ScanResult where
  "notFoundOffline =
     \<lparr>ScanResult.success = False, ticket = None, scanLog = None,
      ScanResult.error = Some ''TICKET_NOT_FOUND'',
      message = Some ''Ticket not found in offline cache. Connect to internet to validate.'',
      isOffline = Some True\<rparr>"

definition networkErrorResult :: ScanResult where
  "networkErrorResult =
     \<lparr>ScanResult.success = False, ticket = None, scanLog = None,
      ScanResult.error = Some ''Network error'',
      message = Some ''Failed to validate ticket. Please try again.'',
      isOffline = None\<rparr>"

definition workerFailureResult :: ScanResult where
  "workerFailureResult =
     \<lparr>ScanResult.success = False, ticket = None, scanLog = None,
      ScanResult.error = Some ''Offline - request will be synced when online'',
      message = None, isOffline = None\<rparr>"


text \<open>The page after the payload \<open>Q1\<close> failed offline validation for want of a cache entry.\<close>

definition failedPage :: ScanPage where
  "failedPage = \<lparr>isProcessing = False, lastScannedCode = ''Q1'',
                 scanResult = Some notFoundOffline,
                 toasts = [ToastError ''Ticket not found offline'']\<rparr>"

section \<open>Authoritative scan\<close>

lemma find_markUsed_qr:
  "find (\<lambda>t. qrCode t = q) ts = Some t \<Longrightarrow>
   find (\<lambda>t. qrCode t = q) (markUsed (id' t) at ts)
     = Some (t\<lparr>status := USED, usedAt := Some at\<rparr>)"
  by (induction ts) (auto simp: markUsed_def)

lemma find_markUsed_id:
  "find (\<lambda>t. id' t = i) ts = Some t \<Longrightarrow>
   find (\<lambda>t. id' t = i) (markUsed i at ts) = Some (t\<lparr>status := USED, usedAt := Some at\<rparr>)"
  by (induction ts) (auto simp: markUsed_def)

lemma scan_active:
  assumes "findTicketByQrCode qr (ticketTable db) = Some t" and "status t = ACTIVE"
    and "findScanLogById u (scanLogTable db) = None"
  shows "scanTransaction qr who loc dev u clock db =
     (Inr (t\<lparr>status := USED, usedAt := Some clock\<rparr>,
           \<lparr>id' = u, ticketId = id' t, scannedAt = clock, scannedBy = who, location = loc,
            deviceInfo = dev\<rparr>),
      \<lparr>ticketTable = markUsed (id' t) clock (ticketTable db),
       scanLogTable = scanLogTable db @
         [\<lparr>id' = u, ticketId = id' t, scannedAt = clock, scannedBy = who, location = loc,
           deviceInfo = dev\<rparr>]\<rparr>)"
  using assms by (simp add: scanTransaction_def createScanLog_def Let_def)

lemma scan_used:
  assumes "findTicketByQrCode qr (ticketTable db) = Some t" and "status t = USED"
  shows "scanTransaction qr who loc dev u clock db = (Inl (Thrown ''TICKET_USED''), db)"
  using assms by (simp add: scanTransaction_def)

lemma scan_success_then_used:
  assumes "scanTransaction qr who loc dev u clock db = (Inr x, db1)"
  shows "\<exists>t. findTicketByQrCode qr (ticketTable db1) = Some t \<and> status t = USED"
  using assms
  by (auto simp: scanTransaction_def Let_def findTicketByQrCode_def find_markUsed_qr
      split: option.splits if_splits sum.splits)

text \<open>
  Claim C1, as the code has it.  If the ticket found for a qrCode is \<open>ACTIVE\<close> (and the
  generated scan-log id is unused), the first authoritative scan succeeds: it returns the
  ticket as \<open>USED\<close> with \<open>usedAt\<close> the server clock, the ticket found for the qrCode
  is now that \<open>USED\<close> ticket, and exactly one ScanLog row is appended.  The second scan of
  the same qrCode throws \<open>TICKET_USED\<close> and changes nothing.  Moreover, for every
  database and qrCode, whatever the status, two scans in sequence never both succeed:
  at least one of the two results is a throw.
\<close>

theorem scan_twice:
  "(findTicketByQrCode qr (ticketTable db) = Some t \<and> status t = ACTIVE \<and>
    findScanLogById u1 (scanLogTable db) = None \<longrightarrow>
     (let log = \<lparr>id' = u1, ticketId = id' t, scannedAt = n1, scannedBy = w1,
                  location = l1, deviceInfo = d1\<rparr>;
          used = t\<lparr>status := USED, usedAt := Some n1\<rparr>;
          (r1, db1) = scanTransaction qr w1 l1 d1 u1 n1 db;
          (r2, db2) = scanTransaction qr w2 l2 d2 u2 n2 db1
      in r1 = Inr (used, log) \<and>
         findTicketByQrCode qr (ticketTable db1) = Some used \<and>
         ticketTable db1 = markUsed (id' t) n1 (ticketTable db) \<and>
         scanLogTable db1 = scanLogTable db @ [log] \<and>
         r2 = Inl (Thrown ''TICKET_USED'') \<and> db2 = db1))
   \<and> (isl (fst (scanTransaction qr w1 l1 d1 u1 n1 db)) \<or>
      isl (fst (scanTransaction qr w2 l2 d2 u2 n2
                 (snd (scanTransaction qr w1 l1 d1 u1 n1 db)))))"
proof (intro conjI impI)
  assume a: "findTicketByQrCode qr (ticketTable db) = Some t \<and> status t = ACTIVE \<and>
    findScanLogById u1 (scanLogTable db) = None"
  let ?used = "t\<lparr>status := USED, usedAt := Some n1\<rparr>"
  have f: "findTicketByQrCode qr (markUsed (id' t) n1 (ticketTable db)) = Some ?used"
    using a by (simp add: findTicketByQrCode_def find_markUsed_qr)
  show "(let log = \<lparr>id' = u1, ticketId = id' t, scannedAt = n1, scannedBy = w1,
                  location = l1, deviceInfo = d1\<rparr>;
          used = t\<lparr>status := USED, usedAt := Some n1\<rparr>;
          (r1, db1) = scanTransaction qr w1 l1 d1 u1 n1 db;
          (r2, db2) = scanTransaction qr w2 l2 d2 u2 n2 db1
      in r1 = Inr (used, log) \<and>
         findTicketByQrCode qr (ticketTable db1) = Some used \<and>
         ticketTable db1 = markUsed (id' t) n1 (ticketTable db) \<and>
         scanLogTable db1 = scanLogTable db @ [log] \<and>
         r2 = Inl (Thrown ''TICKET_USED'') \<and> db2 = db1)"
    using a f by (simp add: scan_active scan_used Let_def)
next
  show "isl (fst (scanTransaction qr w1 l1 d1 u1 n1 db)) \<or>
      isl (fst (scanTransaction qr w2 l2 d2 u2 n2
                 (snd (scanTransaction qr w1 l1 d1 u1 n1 db))))"
  proof (cases "scanTransaction qr w1 l1 d1 u1 n1 db")
    case (Pair r db1)
    show ?thesis
    proof (cases r)
      case (Inl e)
      with Pair show ?thesis by simp
    next
      case (Inr x)
      with Pair scan_success_then_used obtain t' where
        "findTicketByQrCode qr (ticketTable db1) = Some t'" and "status t' = USED"
        by blast
      then show ?thesis using Pair by (simp add: scan_used)
    qed
  qed
qed

theorem scan_twice_witness:
  "let db = \<lparr>ticketTable = [T1], scanLogTable = []\<rparr>;
       (r1, db1) = scanTransaction ''T1'' None None None ''L1'' 2000 db;
       (r2, db2) = scanTransaction ''T1'' None None None ''L2'' 3000 db1
   in findTicketByQrCode ''T1'' (ticketTable db) = Some T1 \<and> status T1 = ACTIVE \<and>
      findScanLogById ''L1'' (scanLogTable db) = None \<and>
      r1 = Inr (T1\<lparr>status := USED, usedAt := Some 2000\<rparr>,
                \<lparr>id' = ''L1'', ticketId = ''T1'', scannedAt = 2000, scannedBy = None,
                 location = None, deviceInfo = None\<rparr>) \<and>
      length (scanLogTable db1) = 1 \<and>
      r2 = Inl (Thrown ''TICKET_USED'') \<and> db2 = db1"
  using scan_twice [of "''T1''" "\<lparr>ticketTable = [T1], scanLogTable = []\<rparr>" T1 "''L1''"
      2000 None None None None None None "''L2''" 3000]
  by (simp add: Let_def findTicketByQrCode_def findScanLogById_def T1_def split: prod.splits)

text \<open>
  The claim as worded speaks of every ticket.  For a \<open>CANCELLED\<close> ticket the first scan
  already throws \<open>TICKET_CANCELLED\<close>, and so does the second: neither a success nor
  \<open>TICKET_USED\<close>.
\<close>

theorem scan_cancelled_counterexample:
  "scanTransaction ''T1'' None None None ''L1'' 2000
     \<lparr>ticketTable = [T1\<lparr>status := CANCELLED\<rparr>], scanLogTable = []\<rparr>
     = (Inl (Thrown ''TICKET_CANCELLED''),
        \<lparr>ticketTable = [T1\<lparr>status := CANCELLED\<rparr>], scanLogTable = []\<rparr>)
   \<and> fst (scanTransaction ''T1'' None None None ''L2'' 3000
         \<lparr>ticketTable = [T1\<lparr>status := CANCELLED\<rparr>], scanLogTable = []\<rparr>)
     \<noteq> Inl (Thrown ''TICKET_USED'')"
  by (simp add: scanTransaction_def findTicketByQrCode_def T1_def)

section \<open>Reconciliation, one scan-log item\<close>

lemma syncScanLog_eq:
  "syncScanLog l (db, r) =
     (if findScanLogById (id' l) (scanLogTable db) \<noteq> None
      then (db, pushSyncedScanLog (id' l) r)
      else case findTicketById (ticketId l) (ticketTable db) of
             None \<Rightarrow> (db, pushError ''scanLog'' (id' l) ''Associated ticket not found'' r)
           | Some t \<Rightarrow>
               (if status t = ACTIVE
                then db\<lparr>scanLogTable := scanLogTable db @ [l],
                        ticketTable := markUsed (ticketId l) (scannedAt l) (ticketTable db)\<rparr>
                else db\<lparr>scanLogTable := scanLogTable db @ [l]\<rparr>,
                pushSyncedScanLog (id' l) r))"
  by (auto simp: syncScanLog_def createScanLog_def Let_def split: option.splits)

text \<open>
  Claim C3, as the code has it.  A scan-log item whose ticket exists with a status other
  than \<open>ACTIVE\<close>: when no ScanLog with its id exists yet, its row is created exactly as
  submitted; when one exists already, no row is created and the table is left as it is.
  In both cases a ScanLog with its id is in the table afterwards, its id is pushed to
  the synced list, no error is reported, and the Ticket table (hence the ticket's status
  and usedAt) is unchanged.
\<close>

theorem sync_scanLog_conflict:
  assumes "findTicketById (ticketId l) (ticketTable db) = Some t" and "status t \<noteq> ACTIVE"
  shows "syncScanLog l (db, r) =
           (if findScanLogById (id' l) (scanLogTable db) = None
            then db\<lparr>scanLogTable := scanLogTable db @ [l]\<rparr> else db,
            pushSyncedScanLog (id' l) r)
         \<and> findScanLogById (id' l) (scanLogTable (fst (syncScanLog l (db, r)))) \<noteq> None
         \<and> id' l \<in> set (Synced.scanLogs (SyncReport.synced (snd (syncScanLog l (db, r)))))
         \<and> SyncReport.errors (snd (syncScanLog l (db, r))) = SyncReport.errors r
         \<and> ticketTable (fst (syncScanLog l (db, r))) = ticketTable db"
  using assms
  by (auto simp: syncScanLog_eq pushSyncedScanLog_def findScanLogById_def find_None_iff)

theorem sync_scanLog_conflict_witness:
  "let db = \<lparr>ticketTable = [T1\<lparr>status := CANCELLED\<rparr>], scanLogTable = []\<rparr>;
       (db', r') = syncScanLog L1 (db, emptyReport)
   in findTicketById (ticketId L1) (ticketTable db) = Some (T1\<lparr>status := CANCELLED\<rparr>) \<and>
      status (T1\<lparr>status := CANCELLED\<rparr>) \<noteq> ACTIVE \<and>
      scanLogTable db' = [L1] \<and> ticketTable db' = [T1\<lparr>status := CANCELLED\<rparr>] \<and>
      Synced.scanLogs (SyncReport.synced r') = [''L1''] \<and> SyncReport.errors r' = []"
  using sync_scanLog_conflict [of L1
      "\<lparr>ticketTable = [T1\<lparr>status := CANCELLED\<rparr>], scanLogTable = []\<rparr>"
      "T1\<lparr>status := CANCELLED\<rparr>" emptyReport]
  by (simp add: Let_def findTicketById_def findScanLogById_def T1_def L1_def emptyReport_def
      pushSyncedScanLog_def split: prod.splits)

text \<open>
  The claim as worded speaks of every scan-log item.  A retry: the scan log \<open>L1\<close> is
  already in the table and its ticket is \<open>USED\<close>; the item is counted as synced, and no
  row is created, the table still holds the one row.
\<close>

theorem sync_scanLog_conflict_counterexample:
  "syncScanLog L1
     (\<lparr>ticketTable = [T1\<lparr>status := USED, usedAt := Some 2000\<rparr>], scanLogTable = [L1]\<rparr>,
      emptyReport)
   = (\<lparr>ticketTable = [T1\<lparr>status := USED, usedAt := Some 2000\<rparr>], scanLogTable = [L1]\<rparr>,
      pushSyncedScanLog ''L1'' emptyReport)
   \<and> findTicketById (ticketId L1) [T1\<lparr>status := USED, usedAt := Some 2000\<rparr>]
       = Some (T1\<lparr>status := USED, usedAt := Some 2000\<rparr>)
   \<and> status (T1\<lparr>status := USED, usedAt := Some 2000\<rparr>) \<noteq> ACTIVE"
  by (simp add: syncScanLog_def findScanLogById_def findTicketById_def L1_def T1_def)

text \<open>
  Claim C4.  A new scan-log item (no ScanLog with its id yet) whose ticket exists with
  status \<open>ACTIVE\<close>: the row is appended, its id is pushed to the synced list, and the
  ticket found under its \<open>ticketId\<close> is afterwards \<open>USED\<close> with \<open>usedAt\<close> the item's
  \<open>scannedAt\<close>.  A reconciliation of the one-item batch gives this same database
  whatever the server clock is.
\<close>

theorem sync_scanLog_flip:
  assumes "findScanLogById (id' l) (scanLogTable db) = None"
    and "findTicketById (ticketId l) (ticketTable db) = Some t" and "status t = ACTIVE"
  shows "syncScanLog l (db, r) =
           (\<lparr>ticketTable = markUsed (ticketId l) (scannedAt l) (ticketTable db),
             scanLogTable = scanLogTable db @ [l]\<rparr>, pushSyncedScanLog (id' l) r)
         \<and> findTicketById (ticketId l) (markUsed (ticketId l) (scannedAt l) (ticketTable db))
             = Some (t\<lparr>status := USED, usedAt := Some (scannedAt l)\<rparr>)
         \<and> syncTransaction clock \<lparr>SyncData.tickets = [], SyncData.scanLogs = [l]\<rparr> db =
             (pushSyncedScanLog (id' l) emptyReport,
              \<lparr>ticketTable = markUsed (ticketId l) (scannedAt l) (ticketTable db),
               scanLogTable = scanLogTable db @ [l]\<rparr>)"
  using assms
  by (simp add: syncScanLog_eq syncTransaction_def findTicketById_def find_markUsed_id)

theorem sync_scanLog_flip_witness:
  "let db = \<lparr>ticketTable = [T1], scanLogTable = []\<rparr>
   in findScanLogById (id' L1) (scanLogTable db) = None \<and>
      findTicketById (ticketId L1) (ticketTable db) = Some T1 \<and> status T1 = ACTIVE \<and>
      snd (syncTransaction 9000 \<lparr>SyncData.tickets = [], SyncData.scanLogs = [L1]\<rparr> db) =
        \<lparr>ticketTable = [T1\<lparr>status := USED, usedAt := Some 2000\<rparr>], scanLogTable = [L1]\<rparr>"
  using sync_scanLog_flip [of L1 "\<lparr>ticketTable = [T1], scanLogTable = []\<rparr>" T1 emptyReport
      9000]
  by (simp add: Let_def findTicketById_def findScanLogById_def T1_def L1_def markUsed_def)

section \<open>The Local Durable Store and the client-side reconciler\<close>

text \<open>
  Claim C9.  After any sequence of store operations, from any store, the record returned
  by \<open>getPendingSyncCount\<close> has \<open>total = tickets + scanLogs\<close>, and its \<open>tickets\<close> and
  \<open>scanLogs\<close> are the lengths of \<open>getPendingTickets\<close> and \<open>getPendingScanLogs\<close>.
\<close>

theorem pendingSyncCount_consistent:
  "PendingSyncCount.total (getPendingSyncCount (runOps ops st)) =
     PendingSyncCount.tickets (getPendingSyncCount (runOps ops st)) +
     PendingSyncCount.scanLogs (getPendingSyncCount (runOps ops st)) \<and>
   PendingSyncCount.tickets (getPendingSyncCount (runOps ops st)) =
     length (getPendingTickets (runOps ops st)) \<and>
   PendingSyncCount.scanLogs (getPendingSyncCount (runOps ops st)) =
     length (getPendingScanLogs (runOps ops st))"
  by (simp add: getPendingSyncCount_def getPendingTickets_def getPendingScanLogs_def Let_def)

text \<open>
  Claim C10.  When no pending ticket and no pending scan log is unsynced,
  \<open>performManualSync\<close> returns success with both counters 0 and no errors, submits no
  request, and leaves the store as it was, whatever the network would have answered.
\<close>

theorem performManualSync_nothing_pending:
  assumes "getPendingTickets st = []" and "getPendingScanLogs st = []"
  shows "performManualSync fetch st =
           (Inr \<lparr>SyncResult.success = True, ticketsSynced = 0, scanLogsSynced = 0,
                 SyncResult.errors = []\<rparr>, st, [])"
  using assms by (simp add: performManualSync_def)

theorem performManualSync_nothing_pending_witness:
  "let st = emptyStore\<lparr>pendingTickets := [P1\<lparr>PendingTicket.synced := 1\<rparr>]\<rparr>
   in getPendingTickets st = [] \<and> getPendingScanLogs st = [] \<and>
      performManualSync (syncEndpoint 5000 emptyDatabase) st =
        (Inr \<lparr>SyncResult.success = True, ticketsSynced = 0, scanLogsSynced = 0,
              SyncResult.errors = []\<rparr>, st, [])"
  using performManualSync_nothing_pending
    [of "emptyStore\<lparr>pendingTickets := [P1\<lparr>PendingTicket.synced := 1\<rparr>]\<rparr>"
        "syncEndpoint 5000 emptyDatabase"]
  by (simp add: Let_def getPendingTickets_def getPendingScanLogs_def emptyStore_def P1_def)

section \<open>Reconciliation is idempotent\<close>

lemma findTicketById_None: "findTicketById i (ticketTable db) = None \<longleftrightarrow> i \<notin> ticketIds db"
  by (auto simp: findTicketById_def find_None_iff ticketIds_def)

lemma findTicketByQrCode_None:
  "findTicketByQrCode q (ticketTable db) = None \<longleftrightarrow> q \<notin> ticketQrCodes db"
  by (auto simp: findTicketByQrCode_def find_None_iff ticketQrCodes_def)

lemma findScanLogById_None: "findScanLogById i (scanLogTable db) = None \<longleftrightarrow> i \<notin> scanLogIds db"
  by (auto simp: findScanLogById_def find_None_iff scanLogIds_def)

lemma markUsed_ids: "id' ` set (markUsed i at ts) = id' ` set ts"
  by (induction ts) (auto simp: markUsed_def)

lemma markUsed_qrCodes: "qrCode ` set (markUsed i at ts) = qrCode ` set ts"
  by (induction ts) (auto simp: markUsed_def)

lemma findTicketById_Some:
  "i \<in> ticketIds db \<Longrightarrow> \<exists>x. findTicketById i (ticketTable db) = Some x"
  using findTicketById_None [of i db] by (cases "findTicketById i (ticketTable db)") auto

lemma syncTicket_eq:
  "syncTicket c t (db, r) =
     (if id' t \<in> ticketIds db then (db, pushSyncedTicket (id' t) r)
      else if qrCode t \<in> ticketQrCodes db
      then (db, pushError ''ticket'' (id' t) (errorMessage UniqueConstraint) r)
      else (db\<lparr>ticketTable := ticketTable db @ [newTicket c t]\<rparr>,
            pushSyncedTicket (id' t) r))"
proof (cases "id' t \<in> ticketIds db")
  case True
  then obtain x where "findTicketById (id' t) (ticketTable db) = Some x"
    using findTicketById_Some by blast
  with True show ?thesis by (simp add: syncTicket_def)
next
  case False
  then have n: "findTicketById (id' t) (ticketTable db) = None"
    by (simp add: findTicketById_None)
  have i: "id' (newTicket c t) = id' t" and q: "qrCode (newTicket c t) = qrCode t"
    by (simp_all add: newTicket_def)
  show ?thesis
  proof (cases "qrCode t \<in> ticketQrCodes db")
    case q': True
    then have "findTicketByQrCode (qrCode t) (ticketTable db) \<noteq> None"
      by (simp add: findTicketByQrCode_None)
    with False q' n show ?thesis by (simp add: syncTicket_def createTicket_def i q)
  next
    case q': False
    then have "findTicketByQrCode (qrCode t) (ticketTable db) = None"
      by (simp add: findTicketByQrCode_None)
    with False q' n show ?thesis by (simp add: syncTicket_def createTicket_def i q)
  qed
qed


lemma syncScanLog_eq2:
  "syncScanLog l (db, r) =
     (if id' l \<in> scanLogIds db then (db, pushSyncedScanLog (id' l) r)
      else case findTicketById (ticketId l) (ticketTable db) of
              None \<Rightarrow> (db, pushError ''scanLog'' (id' l) ''Associated ticket not found'' r)
            | Some t \<Rightarrow>
                (if status t = ACTIVE
                 then db\<lparr>scanLogTable := scanLogTable db @ [l],
                         ticketTable := markUsed (ticketId l) (scannedAt l) (ticketTable db)\<rparr>
                 else db\<lparr>scanLogTable := scanLogTable db @ [l]\<rparr>,
                 pushSyncedScanLog (id' l) r))"
  using findScanLogById_None [of "id' l" db] by (simp add: syncScanLog_eq)

text \<open>Facts about one ticket step.\<close>

lemma syncTicket_tables:
  "scanLogTable (fst (syncTicket c t s)) = scanLogTable (fst s)"
  "ticketIds (fst s) \<subseteq> ticketIds (fst (syncTicket c t s))"
  "ticketQrCodes (fst s) \<subseteq> ticketQrCodes (fst (syncTicket c t s))"
  by (cases s; auto simp: syncTicket_eq ticketIds_def ticketQrCodes_def)+

lemma syncTicket_settled: "ticketSettled t (fst (syncTicket c t s))"
  by (cases s) (auto simp: syncTicket_eq ticketSettled_def ticketIds_def ticketQrCodes_def
      newTicket_def)

lemma syncTicket_fixed: "ticketSettled t (fst s) \<Longrightarrow> fst (syncTicket c t s) = fst s"
  by (cases s) (auto simp: syncTicket_eq ticketSettled_def)

lemma syncTicket_report:
  "syncedScanLogIds (snd (syncTicket c t s)) = syncedScanLogIds (snd s)"
  "syncedTicketIds (snd s) \<subseteq> syncedTicketIds (snd (syncTicket c t s))"
  "syncedTicketIds (snd (syncTicket c t s))
     \<subseteq> syncedTicketIds (snd s) \<union> ({id' t} \<inter> ticketIds (fst (syncTicket c t s)))"
  "id' t \<in> ticketIds (fst s) \<Longrightarrow> id' t \<in> syncedTicketIds (snd (syncTicket c t s))"
  by (cases s; auto simp: syncTicket_eq ticketIds_def newTicket_def syncedTicketIds_def
        syncedScanLogIds_def pushSyncedTicket_def pushError_def)+


text \<open>Facts about one scan-log step.\<close>

lemma syncScanLog_tables:
  "ticketIds (fst (syncScanLog l s)) = ticketIds (fst s)"
  "ticketQrCodes (fst (syncScanLog l s)) = ticketQrCodes (fst s)"
  "scanLogIds (fst s) \<subseteq> scanLogIds (fst (syncScanLog l s))"
  by (cases s; simp add: syncScanLog_eq2 ticketIds_def ticketQrCodes_def scanLogIds_def
        markUsed_ids markUsed_qrCodes split: option.splits; blast)+

lemma syncScanLog_settled: "scanLogSettled l (fst (syncScanLog l s))"
proof (cases s)
  case (Pair db r)
  show ?thesis
  proof (cases "findTicketById (ticketId l) (ticketTable db)")
    case None
    then show ?thesis
      using Pair findTicketById_None [of "ticketId l" db]
      by (simp add: syncScanLog_eq2 scanLogSettled_def)
  next
    case (Some t)
    then show ?thesis
      using Pair by (simp add: syncScanLog_eq2 scanLogSettled_def scanLogIds_def)
  qed
qed

lemma syncScanLog_fixed: "scanLogSettled l (fst s) \<Longrightarrow> fst (syncScanLog l s) = fst s"
  using findTicketById_None [of "ticketId l" "fst s"]
  by (cases s) (auto simp: syncScanLog_eq2 scanLogSettled_def)

lemma syncScanLog_report:
  "syncedTicketIds (snd (syncScanLog l s)) = syncedTicketIds (snd s)"
  "syncedScanLogIds (snd s) \<subseteq> syncedScanLogIds (snd (syncScanLog l s))"
  "syncedScanLogIds (snd (syncScanLog l s))
     \<subseteq> syncedScanLogIds (snd s) \<union> ({id' l} \<inter> scanLogIds (fst (syncScanLog l s)))"
  "id' l \<in> scanLogIds (fst s) \<Longrightarrow> id' l \<in> syncedScanLogIds (snd (syncScanLog l s))"
  by (cases s; simp add: syncScanLog_eq2 scanLogIds_def syncedTicketIds_def
        syncedScanLogIds_def pushSyncedScanLog_def pushError_def split: option.splits;
      blast)+


text \<open>The two loops.\<close>

lemma ticketSettled_mono:
  "ticketSettled t db \<Longrightarrow> ticketIds db \<subseteq> ticketIds db' \<Longrightarrow>
   ticketQrCodes db \<subseteq> ticketQrCodes db' \<Longrightarrow> ticketSettled t db'"
  by (auto simp: ticketSettled_def)

lemma scanLogSettled_mono:
  "scanLogSettled l db \<Longrightarrow> scanLogIds db \<subseteq> scanLogIds db' \<Longrightarrow>
   ticketIds db' = ticketIds db \<Longrightarrow> scanLogSettled l db'"
  by (auto simp: scanLogSettled_def)

lemma fold_syncTicket_tables:
  "scanLogTable (fst (fold (syncTicket c) ts s)) = scanLogTable (fst s) \<and>
   ticketIds (fst s) \<subseteq> ticketIds (fst (fold (syncTicket c) ts s)) \<and>
   ticketQrCodes (fst s) \<subseteq> ticketQrCodes (fst (fold (syncTicket c) ts s))"
proof (induction ts arbitrary: s)
  case Nil
  show ?case by simp
next
  case (Cons t ts)
  from Cons [of "syncTicket c t s"] syncTicket_tables [where c = c and t = t and s = s]
  show ?case by auto
qed

lemma fold_syncTicket_settled:
  "t \<in> set ts \<Longrightarrow> ticketSettled t (fst (fold (syncTicket c) ts s))"
proof (induction ts arbitrary: s)
  case Nil
  then show ?case by simp
next
  case (Cons u ts)
  show ?case
  proof (cases "t \<in> set ts")
    case True
    then show ?thesis using Cons.IH by simp
  next
    case False
    with Cons.prems have "t = u" by simp
    then have "ticketSettled t (fst (syncTicket c u s))" by (simp add: syncTicket_settled)
    then show ?thesis
      using fold_syncTicket_tables [of c ts "syncTicket c u s"]
      by (auto intro: ticketSettled_mono)
  qed
qed

lemma fold_syncTicket_fixed:
  "(\<And>t. t \<in> set ts \<Longrightarrow> ticketSettled t (fst s)) \<Longrightarrow> fst (fold (syncTicket c) ts s) = fst s"
proof (induction ts arbitrary: s)
  case Nil
  show ?case by simp
next
  case (Cons u ts)
  have u: "fst (syncTicket c u s) = fst s"
    using Cons.prems by (simp add: syncTicket_fixed)
  then have "fst (fold (syncTicket c) ts (syncTicket c u s)) = fst (syncTicket c u s)"
    using Cons.prems by (intro Cons.IH) simp
  with u show ?case by simp
qed

lemma fold_syncTicket_report:
  "syncedScanLogIds (snd (fold (syncTicket c) ts s)) = syncedScanLogIds (snd s) \<and>
   syncedTicketIds (snd s) \<subseteq> syncedTicketIds (snd (fold (syncTicket c) ts s)) \<and>
   syncedTicketIds (snd (fold (syncTicket c) ts s))
     \<subseteq> syncedTicketIds (snd s) \<union> (id' ` set ts \<inter> ticketIds (fst (fold (syncTicket c) ts s)))"
proof (induction ts arbitrary: s)
  case Nil
  show ?case by simp
next
  case (Cons t ts)
  from Cons [of "syncTicket c t s"] syncTicket_report(1-3) [where c = c and t = t and s = s]
    fold_syncTicket_tables [of c ts "syncTicket c t s"]
  show ?case by (simp; blast)
qed

lemma fold_syncTicket_present:
  "t \<in> set ts \<Longrightarrow> id' t \<in> ticketIds (fst s) \<Longrightarrow>
   id' t \<in> syncedTicketIds (snd (fold (syncTicket c) ts s))"
proof (induction ts arbitrary: s)
  case Nil
  then show ?case by simp
next
  case (Cons u ts)
  have grown: "id' t \<in> ticketIds (fst (syncTicket c u s))"
    using Cons.prems(2) syncTicket_tables(2) [where c = c and t = u and s = s] by blast
  show ?case
  proof (cases "t \<in> set ts")
    case True
    then show ?thesis using Cons.IH grown by simp
  next
    case False
    with Cons.prems have "t = u" by simp
    then have "id' t \<in> syncedTicketIds (snd (syncTicket c u s))"
      using Cons.prems(2) by (simp add: syncTicket_report)
    then show ?thesis
      using fold_syncTicket_report [of c ts "syncTicket c u s"] by auto
  qed
qed

lemma fold_syncScanLog_tables:
  "ticketIds (fst (fold syncScanLog ls s)) = ticketIds (fst s) \<and>
   ticketQrCodes (fst (fold syncScanLog ls s)) = ticketQrCodes (fst s) \<and>
   scanLogIds (fst s) \<subseteq> scanLogIds (fst (fold syncScanLog ls s))"
proof (induction ls arbitrary: s)
  case Nil
  show ?case by simp
next
  case (Cons l ls)
  from Cons [of "syncScanLog l s"] syncScanLog_tables [where l = l and s = s]
  show ?case by auto
qed

lemma fold_syncScanLog_settled:
  "l \<in> set ls \<Longrightarrow> scanLogSettled l (fst (fold syncScanLog ls s))"
proof (induction ls arbitrary: s)
  case Nil
  then show ?case by simp
next
  case (Cons u ls)
  show ?case
  proof (cases "l \<in> set ls")
    case True
    then show ?thesis using Cons.IH by simp
  next
    case False
    with Cons.prems have "l = u" by simp
    then have "scanLogSettled l (fst (syncScanLog u s))" by (simp add: syncScanLog_settled)
    then show ?thesis
      using fold_syncScanLog_tables [of ls "syncScanLog u s"]
      by (auto intro: scanLogSettled_mono)
  qed
qed

lemma fold_syncScanLog_fixed:
  "(\<And>l. l \<in> set ls \<Longrightarrow> scanLogSettled l (fst s)) \<Longrightarrow> fst (fold syncScanLog ls s) = fst s"
proof (induction ls arbitrary: s)
  case Nil
  show ?case by simp
next
  case (Cons u ls)
  have u: "fst (syncScanLog u s) = fst s"
    using Cons.prems by (simp add: syncScanLog_fixed)
  then have "fst (fold syncScanLog ls (syncScanLog u s)) = fst (syncScanLog u s)"
    using Cons.prems by (intro Cons.IH) simp
  with u show ?case by simp
qed

lemma fold_syncScanLog_report:
  "syncedTicketIds (snd (fold syncScanLog ls s)) = syncedTicketIds (snd s) \<and>
   syncedScanLogIds (snd s) \<subseteq> syncedScanLogIds (snd (fold syncScanLog ls s)) \<and>
   syncedScanLogIds (snd (fold syncScanLog ls s))
     \<subseteq> syncedScanLogIds (snd s) \<union> (id' ` set ls \<inter> scanLogIds (fst (fold syncScanLog ls s)))"
proof (induction ls arbitrary: s)
  case Nil
  show ?case by simp
next
  case (Cons l ls)
  from Cons [of "syncScanLog l s"] syncScanLog_report(1-3) [where l = l and s = s]
    fold_syncScanLog_tables [of ls "syncScanLog l s"]
  show ?case by (simp; blast)
qed

lemma fold_syncScanLog_present:
  "l \<in> set ls \<Longrightarrow> id' l \<in> scanLogIds (fst s) \<Longrightarrow>
   id' l \<in> syncedScanLogIds (snd (fold syncScanLog ls s))"
proof (induction ls arbitrary: s)
  case Nil
  then show ?case by simp
next
  case (Cons u ls)
  have grown: "id' l \<in> scanLogIds (fst (syncScanLog u s))"
    using Cons.prems(2) syncScanLog_tables(3) [where l = u and s = s] by blast
  show ?case
  proof (cases "l \<in> set ls")
    case True
    then show ?thesis using Cons.IH grown by simp
  next
    case False
    with Cons.prems have "l = u" by simp
    then have "id' l \<in> syncedScanLogIds (snd (syncScanLog u s))"
      using Cons.prems(2) by (simp add: syncScanLog_report)
    then show ?thesis
      using fold_syncScanLog_report [of ls "syncScanLog u s"] by auto
  qed
qed


lemma syncTransaction_fold:
  "syncTransaction c batch db =
     (snd (fold syncScanLog (SyncData.scanLogs batch)
             (fold (syncTicket c) (SyncData.tickets batch) (db, emptyReport))),
      fst (fold syncScanLog (SyncData.scanLogs batch)
             (fold (syncTicket c) (SyncData.tickets batch) (db, emptyReport))))"
  by (simp add: syncTransaction_def split: prod.splits)

lemma emptyReport_ids: "syncedTicketIds emptyReport = {}" "syncedScanLogIds emptyReport = {}"
  by (simp_all add: syncedTicketIds_def syncedScanLogIds_def emptyReport_def)

text \<open>
  Claim C2.  Submitting the same batch a second time, against the database the first
  submission produced (the server clock may differ), leaves the database exactly as it
  was: no Ticket row and no ScanLog row is added and no ticket is written again.  Every
  id in a success list of the first report is in the same success list of the second
  report; more precisely, the second report counts as synced every ticket item and every
  scan-log item of the batch whose id is in the database after the first submission.
\<close>

theorem sync_idempotent:
  "snd (syncTransaction c2 batch (snd (syncTransaction c1 batch db)))
     = snd (syncTransaction c1 batch db)
   \<and> set (Synced.tickets (SyncReport.synced (fst (syncTransaction c1 batch db))))
       \<subseteq> set (Synced.tickets (SyncReport.synced
                (fst (syncTransaction c2 batch (snd (syncTransaction c1 batch db))))))
   \<and> set (Synced.scanLogs (SyncReport.synced (fst (syncTransaction c1 batch db))))
       \<subseteq> set (Synced.scanLogs (SyncReport.synced
                (fst (syncTransaction c2 batch (snd (syncTransaction c1 batch db))))))
   \<and> (\<forall>t \<in> set (SyncData.tickets batch).
         id' t \<in> ticketIds (snd (syncTransaction c1 batch db)) \<longrightarrow>
         id' t \<in> set (Synced.tickets (SyncReport.synced
                  (fst (syncTransaction c2 batch (snd (syncTransaction c1 batch db)))))))
   \<and> (\<forall>l \<in> set (SyncData.scanLogs batch).
         id' l \<in> scanLogIds (snd (syncTransaction c1 batch db)) \<longrightarrow>
         id' l \<in> set (Synced.scanLogs (SyncReport.synced
                  (fst (syncTransaction c2 batch (snd (syncTransaction c1 batch db)))))))"
proof -
  let ?ts = "SyncData.tickets batch" and ?ls = "SyncData.scanLogs batch"
  define s1 where "s1 = fold (syncTicket c1) ?ts (db, emptyReport)"
  define s2 where "s2 = fold syncScanLog ?ls s1"
  define s3 where "s3 = fold (syncTicket c2) ?ts (fst s2, emptyReport)"
  define s4 where "s4 = fold syncScanLog ?ls s3"
  have first: "syncTransaction c1 batch db = (snd s2, fst s2)"
    by (simp add: syncTransaction_fold s1_def s2_def)
  have second: "syncTransaction c2 batch (fst s2) = (snd s4, fst s4)"
    by (simp add: syncTransaction_fold s3_def s4_def)
  have same: "ticketIds (fst s2) = ticketIds (fst s1)"
    "ticketQrCodes (fst s2) = ticketQrCodes (fst s1)"
    using fold_syncScanLog_tables [of ?ls s1] by (simp_all add: s2_def)
  have t_settled: "ticketSettled t (fst s2)" if "t \<in> set ?ts" for t
  proof -
    have "ticketSettled t (fst s1)"
      using that by (simp add: s1_def fold_syncTicket_settled)
    then show ?thesis using same by (auto intro: ticketSettled_mono)
  qed
  have s3_fixed: "fst s3 = fst s2"
    using fold_syncTicket_fixed [of ?ts "(fst s2, emptyReport)" c2] t_settled
    by (simp add: s3_def)
  have l_settled: "scanLogSettled l (fst s3)" if "l \<in> set ?ls" for l
    using that s3_fixed by (simp add: s2_def fold_syncScanLog_settled)
  have s4_fixed: "fst s4 = fst s2"
    using fold_syncScanLog_fixed [of ?ls s3] l_settled s3_fixed by (simp add: s4_def)
  have t_again: "id' t \<in> syncedTicketIds (snd s4)"
    if "t \<in> set ?ts" and "id' t \<in> ticketIds (fst s2)" for t
  proof -
    have "id' t \<in> syncedTicketIds (snd s3)"
      using that fold_syncTicket_present [of t ?ts "(fst s2, emptyReport)" c2]
      by (simp add: s3_def)
    then show ?thesis
      using fold_syncScanLog_report [of ?ls s3] by (simp add: s4_def)
  qed
  have l_again: "id' l \<in> syncedScanLogIds (snd s4)"
    if "l \<in> set ?ls" and "id' l \<in> scanLogIds (fst s2)" for l
    using that s3_fixed fold_syncScanLog_present [of l ?ls s3] by (simp add: s4_def)
  have tick: "syncedTicketIds (snd s2) \<subseteq> syncedTicketIds (snd s4)"
  proof
    fix x
    assume "x \<in> syncedTicketIds (snd s2)"
    then have "x \<in> syncedTicketIds (snd s1)"
      using fold_syncScanLog_report [of ?ls s1] by (simp add: s2_def)
    then have "x \<in> id' ` set ?ts \<inter> ticketIds (fst s1)"
      using fold_syncTicket_report [of c1 ?ts "(db, emptyReport)"]
      by (auto simp: s1_def emptyReport_ids)
    then obtain t where "t \<in> set ?ts" and "id' t = x" and "x \<in> ticketIds (fst s2)"
      using same by auto
    then show "x \<in> syncedTicketIds (snd s4)"
      using t_again by blast
  qed
  have logs: "syncedScanLogIds (snd s2) \<subseteq> syncedScanLogIds (snd s4)"
  proof
    fix x
    assume "x \<in> syncedScanLogIds (snd s2)"
    moreover have "syncedScanLogIds (snd s1) = {}"
      using fold_syncTicket_report [of c1 ?ts "(db, emptyReport)"]
      by (simp add: s1_def emptyReport_ids)
    ultimately have "x \<in> id' ` set ?ls \<inter> scanLogIds (fst s2)"
      using fold_syncScanLog_report [of ?ls s1] by (auto simp: s2_def)
    then obtain l where "l \<in> set ?ls" and "id' l = x" and "x \<in> scanLogIds (fst s2)"
      by auto
    then show "x \<in> syncedScanLogIds (snd s4)"
      using l_again by blast
  qed
  show ?thesis
    using first second s4_fixed tick logs t_again l_again
    by (simp add: syncedTicketIds_def syncedScanLogIds_def)
qed

theorem sync_idempotent_witness:
  "let batch = \<lparr>SyncData.tickets = [toSyncTicket P1],
                SyncData.scanLogs = [L1, L1\<lparr>id' := ''L2'', ticketId := ''T9''\<rparr>]\<rparr>;
       (r1, db1) = syncTransaction 5000 batch emptyDatabase;
       (r2, db2) = syncTransaction 6000 batch db1
   in db2 = db1 \<and> length (ticketTable db2) = 1 \<and> scanLogTable db2 = [L1] \<and>
      map status (ticketTable db2) = [USED] \<and> map usedAt (ticketTable db2) = [Some 2000] \<and>
      Synced.tickets (SyncReport.synced r1) = [''T1''] \<and>
      Synced.tickets (SyncReport.synced r2) = [''T1''] \<and>
      Synced.scanLogs (SyncReport.synced r1) = [''L1''] \<and>
      Synced.scanLogs (SyncReport.synced r2) = [''L1'']"
  using sync_idempotent [of 6000 "\<lparr>SyncData.tickets = [toSyncTicket P1],
                SyncData.scanLogs = [L1, L1\<lparr>id' := ''L2'', ticketId := ''T9''\<rparr>]\<rparr>" 5000
      emptyDatabase]
  by (simp add: Let_def syncTransaction_def syncTicket_def syncScanLog_def emptyDatabase_def
      findTicketById_def findTicketByQrCode_def findScanLogById_def createTicket_def
      createScanLog_def newTicket_def toSyncTicket_def P1_def L1_def emptyReport_def
      pushSyncedTicket_def pushSyncedScanLog_def pushError_def markUsed_def)

section \<open>What \<open>performManualSync\<close> leaves in the store\<close>

lemma clearSynced_pending:
  "getPendingTickets (clearSyncedTickets st) = getPendingTickets st"
  "getPendingScanLogs (clearSyncedTickets st) = getPendingScanLogs st"
  "getPendingTickets (clearSyncedScanLogs st) = getPendingTickets st"
  "getPendingScanLogs (clearSyncedScanLogs st) = getPendingScanLogs st"
  by (auto simp: getPendingTickets_def getPendingScanLogs_def clearSyncedTickets_def
      clearSyncedScanLogs_def intro: filter_cong)

text \<open>
  Whatever the network answers, the unsynced entries after \<open>performManualSync\<close> are the
  unsynced entries before it: the function never sets \<open>synced\<close>, and the two clearing
  operations remove only entries whose \<open>synced\<close> is 1.
\<close>

lemma performManualSync_keeps_pending:
  "getPendingTickets (fst (snd (performManualSync fetch st))) = getPendingTickets st \<and>
   getPendingScanLogs (fst (snd (performManualSync fetch st))) = getPendingScanLogs st"
  by (simp add: performManualSync_def Let_def clearSynced_pending
      split: Fetch.splits option.splits)

text \<open>
  Claim C5, evaluated on the code.  One unsynced pending ticket, an empty system of
  record: the reconciliation endpoint accepts the ticket and reports its id as synced,
  \<open>performManualSync\<close> returns \<open>ticketsSynced = 1\<close>, and the store is exactly the store
  before, so the ticket is still returned by \<open>getPendingTickets\<close>.
\<close>

theorem performManualSync_leaves_synced_pending:
  "performManualSync (syncEndpoint 5000 emptyDatabase) (emptyStore\<lparr>pendingTickets := [P1]\<rparr>) =
     (Inr \<lparr>SyncResult.success = True, ticketsSynced = 1, scanLogsSynced = 0,
           SyncResult.errors = []\<rparr>,
      emptyStore\<lparr>pendingTickets := [P1]\<rparr>,
      [\<lparr>SyncData.tickets = [toSyncTicket P1], SyncData.scanLogs = []\<rparr>])
   \<and> getPendingTickets (emptyStore\<lparr>pendingTickets := [P1]\<rparr>) = [P1]"
  by (simp add: performManualSync_def getPendingTickets_def getPendingScanLogs_def emptyStore_def
      P1_def syncEndpoint_def syncPOST_def syncTransaction_def syncTicket_def emptyDatabase_def
      findTicketById_def findTicketByQrCode_def createTicket_def newTicket_def toSyncTicket_def
      emptyReport_def pushSyncedTicket_def clearSyncedTickets_def Let_def)

section \<open>The scan page\<close>

text \<open>
  Claim C6, as the code has it.  For a qrCode with no entry in the local cache, offline
  validation sets the failure result with error \<open>TICKET_NOT_FOUND\<close> and
  \<open>isOffline = true\<close>, shows one toast and leaves the store unchanged.  For a qrCode
  with no ticket in the system of record, the authoritative transaction throws
  \<open>TICKET_NOT_FOUND\<close> as well, answered as status 404 with error \<open>Ticket not found\<close>.
\<close>

theorem offline_not_found:
  "(getCachedTicketByQR qr st = None \<longrightarrow>
      performOfflineScan env qr (page, st) =
        (page\<lparr>scanResult := Some notFoundOffline,
              toasts := toasts page @ [ToastError ''Ticket not found offline'']\<rparr>, st))
   \<and> (findTicketByQrCode qr (ticketTable db) = None \<longrightarrow>
        scanTransaction qr who loc dev u clock db = (Inl (Thrown ''TICKET_NOT_FOUND''), db) \<and>
        scanPOST qr who loc dev u clock db =
          (ScanFailure 404 ''Ticket not found''
             (Some ''The QR code does not match any ticket in the system''), db))"
  by (simp add: performOfflineScan_def scanTransaction_def scanPOST_def scanErrorResponse_def
      notFoundOffline_def)

theorem offline_not_found_witness:
  "getCachedTicketByQR ''Q1'' emptyStore = None \<and>
   findTicketByQrCode ''Q1'' (ticketTable emptyDatabase) = None \<and>
   map_option ScanResult.error
     (scanResult (fst (performOfflineScan offlineEnv ''Q1'' (initialPage, emptyStore))))
     = Some (Some ''TICKET_NOT_FOUND'') \<and>
   snd (performOfflineScan offlineEnv ''Q1'' (initialPage, emptyStore)) = emptyStore \<and>
   fst (scanTransaction ''Q1'' None None None ''L1'' 2000 emptyDatabase)
     = Inl (Thrown ''TICKET_NOT_FOUND'')"
  using offline_not_found [of "''Q1''" emptyStore offlineEnv initialPage emptyDatabase
      None None None "''L1''" 2000]
  by (simp add: getCachedTicketByQR_def emptyStore_def findTicketByQrCode_def emptyDatabase_def
      notFoundOffline_def)

text \<open>
  The claim as worded names the code \<open>NOT_FOUND_OFFLINE\<close>, distinct from the
  authoritative one.  With an empty cache and an empty system of record, the offline
  result carries \<open>TICKET_NOT_FOUND\<close>, the very text the authoritative transaction throws.
\<close>

theorem offline_not_found_counterexample:
  "map_option ScanResult.error
     (scanResult (fst (performOfflineScan offlineEnv ''Q1'' (initialPage, emptyStore))))
     \<noteq> Some (Some ''NOT_FOUND_OFFLINE'')
   \<and> map_option ScanResult.error
     (scanResult (fst (performOfflineScan offlineEnv ''Q1'' (initialPage, emptyStore))))
     = Some (Some ''TICKET_NOT_FOUND'')
   \<and> fst (scanTransaction ''Q1'' None None None ''L1'' 2000 emptyDatabase)
     = Inl (Thrown ''TICKET_NOT_FOUND'')"
  by (simp add: performOfflineScan_def getCachedTicketByQR_def emptyStore_def
      scanTransaction_def findTicketByQrCode_def emptyDatabase_def)

lemma online_store_untouched:
  "isOnline seen \<Longrightarrow> snd (processTicketScan seen env qr (page, st)) = st"
  by (simp add: processTicketScan_def Let_def split: Fetch.splits)

text \<open>
  Claim C7, evaluated on the code.  The handler of a render that saw the page online, the
  ticket \<open>T1\<close> \<open>ACTIVE\<close> in the local cache, and the request to \<open>/api/scan\<close> failing
  in transit.  Whether \<open>fetch\<close> rejects or the service worker answers 503 in its place,
  the page shows a failure at once and the store is left as it was: no offline validation
  is run.  Offline validation of the same payload on the same store accepts the ticket and
  enqueues a scan log.
\<close>

theorem transport_error_surfaces_failure:
  "processTicketScan onlineHandler unreachableEnv ''T1'' (initialPage, cachedStore) =
     (initialPage\<lparr>lastScannedCode := ''T1'', scanResult := Some networkErrorResult,
        toasts := [ToastError ''Network error during scan'']\<rparr>, cachedStore)
   \<and> processTicketScan onlineHandler workerEnv ''T1'' (initialPage, cachedStore) =
     (initialPage\<lparr>lastScannedCode := ''T1'', scanResult := Some workerFailureResult,
        toasts := [ToastError ''Scan failed'']\<rparr>, cachedStore)
   \<and> map_option ScanResult.success
       (scanResult (fst (performOfflineScan unreachableEnv ''T1'' (initialPage, cachedStore))))
       = Some True
   \<and> map id' (pendingScanLogs
       (snd (performOfflineScan unreachableEnv ''T1'' (initialPage, cachedStore)))) = [''L9'']"
  by (simp add: processTicketScan_def onlineHandler_def renderClosure_def initialPage_def
      unreachableEnv_def workerEnv_def showOnlineResult_def performOfflineScan_def
      getCachedTicketByQR_def cachedStore_def CT1_def addPendingScanLog_def Let_def
      updateCachedTicketStatus_def networkErrorResult_def workerFailureResult_def)










text \<open>
  The camera callback of the scanner component keeps the handler of the render in which
  the camera was started.  Called twice with the same payload, the handler of the first
  render validates twice: its remembered payload is still the empty string.
\<close>

lemma stale_handler_validates_again:
  "processTicketScan offlineHandler offlineEnv ''Q1''
     (processTicketScan offlineHandler offlineEnv ''Q1'' (initialPage, emptyStore))
   = (failedPage\<lparr>toasts := [ToastError ''Ticket not found offline'',
                             ToastError ''Ticket not found offline'']\<rparr>, emptyStore)"
  by (simp add: processTicketScan_def offlineHandler_def renderClosure_def initialPage_def
      failedPage_def offlineEnv_def performOfflineScan_def getCachedTicketByQR_def
      emptyStore_def Let_def notFoundOffline_def)

end
